theory Spec2Isabelle
  imports Main
begin

section \<open>The greeter program \<open>hello_world.cpp\<close>\<close>

text \<open>
  The program under verification is a single function:
  \<^verbatim>\<open>
  int main() {
      try {
          std::cout << "Hello, World!" << std::endl;
          return 0;
      } catch (const std::exception& e) {
          std::cerr << "An error occurred: " << e.what() << std::endl;
          return 1;
      }
  }
  \<close>
  (lines 10 to 20 of \<open>src/hello_world.cpp\<close>, comments left out; the output statements are
  lines 13 and 17 of the file). Its behaviour is control flow around two output statements.
  The statements run in the C++ stream library, which is not part of the repository; the
  first part of this theory is a model of the library operations that \<open>main\<close> calls,
  following the wording of the C++ standard (clauses on \<open>basic_ios\<close>, \<open>basic_ostream\<close>, its
  \<open>sentry\<close> and the standard stream objects) and, where the standard leaves a choice, the
  GNU implementation of the library; the second part is \<open>main\<close> itself.
\<close>

subsection \<open>Exceptions and abrupt completion\<close>

text \<open>
  What a \<open>throw\<close> can carry, as far as the handler of \<open>main\<close> can tell: an object of a
  class derived from \<open>std::exception\<close>, with the text its \<open>what()\<close> returns, or an object
  of any other type.
\<close>

datatype thrown = Std_exception string | Non_std_object

text \<open>
  A computation over a state either completes normally or leaves by an exception; the
  state it has reached is kept in both cases.
\<close>

datatype 's step = Normal 's | Thrown thrown 's

fun and_then :: "'s step \<Rightarrow> ('s \<Rightarrow> 's step) \<Rightarrow> 's step" where
  "and_then (Normal s) f = f s"
| "and_then (Thrown e s) f = Thrown e s"

text \<open>The exception a computation left by, if any, and the state it reached.\<close>

fun raised :: "'s step \<Rightarrow> thrown option" where
  "raised (Normal s) = None"
| "raised (Thrown e s) = Some e"

fun state_of :: "'s step \<Rightarrow> 's" where
  "state_of (Normal s) = s"
| "state_of (Thrown e s) = s"

subsection \<open>Output streams\<close>

text \<open>
  The error state of a stream is a set of the three \<open>ios_base::iostate\<close> bits;
  \<open>goodbit\<close> is the empty set.
\<close>

datatype iostate = badbit | failbit | eofbit

text \<open>
  The stream buffer hands characters to a device (a file descriptor). A transfer is
  accepted, refused (\<open>pubsync\<close> returns \<open>-1\<close>), or the buffer throws.
\<close>

datatype sync_result = Synced | Sync_failed | Sync_threw thrown

text \<open>
  An output stream: its error state \<open>rdstate\<close>, its exception mask \<open>exceptions\<close>, the
  \<open>unitbuf\<close> format flag, the characters held in its buffer (\<open>pending\<close>), the bytes that
  have reached the device (\<open>delivered\<close>), and the behaviour of the device, which is given
  the bytes delivered so far and the bytes offered. \<open>failure_what\<close> is the text of
  \<open>ios_base::failure::what()\<close>, which the implementation chooses.
\<close>

record ostream =
  rdstate :: "iostate set"
  exceptions :: "iostate set"
  unitbuf :: bool
  pending :: string
  delivered :: string
  device :: "string \<Rightarrow> string \<Rightarrow> sync_result"
  failure_what :: string

definition good :: "ostream \<Rightarrow> bool" where
  "good os = (rdstate os = {})"

text \<open>
  \<open>basic_ios::setstate(bits)\<close> is \<open>clear(rdstate() | bits)\<close>: the bits are added to the error
  state, and if the new state meets the exception mask an \<open>ios_base::failure\<close> (a class
  derived from \<open>std::exception\<close>) is thrown.
\<close>

definition setstate :: "iostate set \<Rightarrow> ostream \<Rightarrow> ostream step" where
  "setstate bits os =
     (let os' = os\<lparr>rdstate := rdstate os \<union> bits\<rparr>
      in if rdstate os' \<inter> exceptions os' = {} then Normal os'
         else Thrown (Std_exception (failure_what os')) os')"

text \<open>
  \<open>rdbuf()->pubsync()\<close>: the buffered characters are offered to the device. With nothing
  buffered there is nothing to transfer and the call succeeds. After a transfer that the
  device refuses the characters are lost: the C library under the standard streams empties
  its buffer whether or not the write went through. The model abstracts from the size of
  the buffer, so characters reach the device when the buffer is synchronised; and a
  transfer is taken whole or not at all, a write that delivers only a prefix is not
  modelled.
\<close>

definition pubsync :: "ostream \<Rightarrow> sync_result \<times> ostream" where
  "pubsync os =
     (if pending os = [] then (Synced, os)
      else (case device os (delivered os) (pending os) of
              Synced \<Rightarrow> (Synced, os\<lparr>delivered := delivered os @ pending os, pending := []\<rparr>)
            | Sync_failed \<Rightarrow> (Sync_failed, os\<lparr>pending := []\<rparr>)
            | Sync_threw e \<Rightarrow> (Sync_threw e, os)))"

text \<open>
  The destructor of the \<open>sentry\<close> object that every output function constructs: if
  \<open>unitbuf\<close> is set and the stream is good, the buffer is synchronised; a failure sets
  \<open>badbit\<close> without propagating an exception. A destructor cannot let an exception of
  the buffer out either; the model records it as a failure.
\<close>

definition sentry_exit :: "ostream \<Rightarrow> ostream" where
  "sentry_exit os =
     (if unitbuf os \<and> good os
      then (case pubsync os of
              (Synced, os') \<Rightarrow> os'
            | (Sync_failed, os') \<Rightarrow> os'\<lparr>rdstate := insert badbit (rdstate os')\<rparr>
            | (Sync_threw e, os') \<Rightarrow> os'\<lparr>rdstate := insert badbit (rdstate os')\<rparr>)
      else os)"

text \<open>
  The constructor of the \<open>sentry\<close> on a stream that is not good: the sentry is false, so
  the output function generates nothing. The standard allows the constructor to call
  \<open>setstate(failbit)\<close> here; the GNU library does so when \<open>badbit\<close> is set, and the call
  throws \<open>ios_base::failure\<close> when the state meets the exception mask. The sentry is
  constructed outside the \<open>try\<close> block of the output function, so the exception leaves the
  function.
\<close>

definition sentry_not_ok :: "ostream \<Rightarrow> ostream step" where
  "sentry_not_ok os = (if badbit \<in> rdstate os then setstate {failbit} os else Normal os)"

text \<open>
  \<open>operator<<(ostream&, const char*)\<close>: a formatted output function. Its sentry is true
  only on a good stream; then the characters are put into the buffer (the field width is
  0, so there is no padding).
\<close>

definition ostream_insert :: "string \<Rightarrow> ostream \<Rightarrow> ostream step" where
  "ostream_insert s os =
     (if good os then Normal (sentry_exit (os\<lparr>pending := pending os @ s\<rparr>))
      else sentry_not_ok os)"

text \<open>\<open>basic_ostream::put(c)\<close>: an unformatted output function, one character.\<close>

definition put :: "char \<Rightarrow> ostream \<Rightarrow> ostream step" where
  "put c os =
     (if good os then Normal (sentry_exit (os\<lparr>pending := pending os @ [c]\<rparr>))
      else sentry_not_ok os)"

text \<open>
  \<open>basic_ostream::flush()\<close>: an unformatted output function, with a sentry of its own. On
  a good stream it calls \<open>pubsync\<close>; if that returns \<open>-1\<close> it calls \<open>setstate(badbit)\<close>; if an
  exception is thrown during output, \<open>badbit\<close> is set and the exception is rethrown when
  \<open>badbit\<close> is in the exception mask.
\<close>

definition flush :: "ostream \<Rightarrow> ostream step" where
  "flush os =
     (if good os
      then (case pubsync os of
              (Synced, os') \<Rightarrow> Normal (sentry_exit os')
            | (Sync_failed, os') \<Rightarrow> setstate {badbit} os'
            | (Sync_threw e, os') \<Rightarrow>
                (let os'' = os'\<lparr>rdstate := insert badbit (rdstate os')\<rparr>
                 in if badbit \<in> exceptions os'' then Thrown e os'' else Normal os''))
      else sentry_not_ok os)"

subsection \<open>The standard streams of the process\<close>

text \<open>
  The two stream objects \<open>main\<close> uses. \<open>std::cerr\<close> is tied to \<open>std::cout\<close>: the sentry of every
  output function on a good \<open>cerr\<close> first flushes \<open>cout\<close>, and an exception of that flush
  leaves the output function on \<open>cerr\<close>. \<open>std::cout\<close> is tied to nothing.
\<close>

record world =
  cout :: ostream
  cerr :: ostream

definition on_cout :: "(ostream \<Rightarrow> ostream step) \<Rightarrow> world \<Rightarrow> world step" where
  "on_cout f w =
     (case f (cout w) of
        Normal c \<Rightarrow> Normal (w\<lparr>cout := c\<rparr>)
      | Thrown e c \<Rightarrow> Thrown e (w\<lparr>cout := c\<rparr>))"

definition on_cerr :: "(ostream \<Rightarrow> ostream step) \<Rightarrow> world \<Rightarrow> world step" where
  "on_cerr f w =
     (case (if good (cerr w) then on_cout flush w else Normal w) of
        Normal w' \<Rightarrow>
          (case f (cerr w') of
             Normal c \<Rightarrow> Normal (w'\<lparr>cerr := c\<rparr>)
           | Thrown e c \<Rightarrow> Thrown e (w'\<lparr>cerr := c\<rparr>))
      | Thrown e w' \<Rightarrow> Thrown e w')"

text \<open>
  \<open>std::endl\<close> applied to a stream: \<open>os.put(os.widen('\n'))\<close>, then \<open>os.flush()\<close>. The first
  argument chooses the stream. The line terminator is the character the stream hands to
  its buffer; a translation by the platform's text mode happens below the device.
\<close>

definition newline :: char where
  "newline = CHR 0x0A"

definition endl :: "((ostream \<Rightarrow> ostream step) \<Rightarrow> world \<Rightarrow> world step) \<Rightarrow> world \<Rightarrow> world step" where
  "endl strm w = and_then (strm (put newline) w) (strm flush)"

subsection \<open>The program\<close>

text \<open>How the process ends: \<open>main\<close> returns a value, or an exception leaves \<open>main\<close>.\<close>

datatype outcome = Returned int | Uncaught thrown

text \<open>Line 13, the statement of the \<open>try\<close> block.\<close>

definition print_hello :: "world \<Rightarrow> world step" where
  "print_hello w = and_then (on_cout (ostream_insert ''Hello, World!'') w) (endl on_cout)"

text \<open>Line 17, the output statement of the handler; \<open>d\<close> is \<open>e.what()\<close>.\<close>

definition print_error :: "string \<Rightarrow> world \<Rightarrow> world step" where
  "print_error d w =
     and_then (and_then (on_cerr (ostream_insert ''An error occurred: '') w)
                        (on_cerr (ostream_insert d)))
              (endl on_cerr)"

text \<open>
  \<open>main\<close>: the \<open>try\<close> block returns 0 when its statement completes; the handler takes
  exceptions derived from \<open>std::exception\<close> only, and returns 1 when its statement
  completes; any other exception, and an exception thrown inside the handler, leaves
  \<open>main\<close>.
\<close>

definition main :: "world \<Rightarrow> world \<times> outcome" where
  "main w =
     (case print_hello w of
        Normal w1 \<Rightarrow> (w1, Returned 0)
      | Thrown (Std_exception d) w1 \<Rightarrow>
          (case print_error d w1 of
             Normal w2 \<Rightarrow> (w2, Returned 1)
           | Thrown e w2 \<Rightarrow> (w2, Uncaught e))
      | Thrown Non_std_object w1 \<Rightarrow> (w1, Uncaught Non_std_object))"

text \<open>
  The state in which the runtime hands the streams to \<open>main\<close>: both good, with an empty
  exception mask and nothing written; \<open>cerr\<close> has \<open>unitbuf\<close> set, \<open>cout\<close> has not. The two
  devices and the text of \<open>ios_base::failure\<close> are the environment of a run.
\<close>

record environment =
  stdout_device :: "string \<Rightarrow> string \<Rightarrow> sync_result"
  stderr_device :: "string \<Rightarrow> string \<Rightarrow> sync_result"
  failure_text :: string

definition startup :: "environment \<Rightarrow> world" where
  "startup env =
     \<lparr>cout = \<lparr>rdstate = {}, exceptions = {}, unitbuf = False, pending = [], delivered = [],
              device = stdout_device env, failure_what = failure_text env\<rparr>,
      cerr = \<lparr>rdstate = {}, exceptions = {}, unitbuf = True, pending = [], delivered = [],
              device = stderr_device env, failure_what = failure_text env\<rparr>\<rparr>"

definition run :: "environment \<Rightarrow> world \<times> outcome" where
  "run env = main (startup env)"

definition greeting :: string where
  "greeting = ''Hello, World!'' @ [newline]"

subsection \<open>Line 13 on one stream\<close>

text \<open>
  \<open>std::cout\<close> is tied to no other stream, so line 13 is a computation on \<open>cout\<close> alone.
\<close>

definition hello_stmt :: "ostream \<Rightarrow> ostream step" where
  "hello_stmt os =
     and_then (ostream_insert ''Hello, World!'' os) (\<lambda>o1. and_then (put newline o1) flush)"

subsection \<open>Concrete environments\<close>

text \<open>Devices: one that takes every transfer, one that refuses every transfer (a closed
  descriptor, a full disk), one whose buffer throws.\<close>

definition accepting :: "string \<Rightarrow> string \<Rightarrow> sync_result" where
  "accepting d c = Synced"

definition refusing :: "string \<Rightarrow> string \<Rightarrow> sync_result" where
  "refusing d c = Sync_failed"

definition throwing :: "thrown \<Rightarrow> string \<Rightarrow> string \<Rightarrow> sync_result" where
  "throwing e d c = Sync_threw e"

definition console :: environment where
  "console = \<lparr>stdout_device = accepting, stderr_device = accepting,
              failure_text = ''iostream error''\<rparr>"

definition redirected :: environment where
  "redirected = \<lparr>stdout_device = accepting, stderr_device = refusing,
                 failure_text = ''ios_base::clear failed''\<rparr>"

definition closed_stdout :: environment where
  "closed_stdout = \<lparr>stdout_device = refusing, stderr_device = accepting,
                    failure_text = ''iostream error''\<rparr>"

definition alien_stdout :: environment where
  "alien_stdout = \<lparr>stdout_device = throwing Non_std_object, stderr_device = accepting,
                   failure_text = ''iostream error''\<rparr>"

definition broken_pipe :: environment where
  "broken_pipe = \<lparr>stdout_device = throwing (Std_exception ''broken pipe''),
                  stderr_device = accepting, failure_text = ''iostream error''\<rparr>"

text \<open>
  The program never changes an exception mask, so from \<open>startup\<close> both masks are empty.
  For line 13 to throw at all, \<open>strict\<close> is an entry state in which \<open>badbit\<close> has been put
  into the exception mask of \<open>cout\<close>, as \<open>std::cout.exceptions(std::ios::badbit)\<close> would.
\<close>

definition strict :: "world \<Rightarrow> world" where
  "strict w = w\<lparr>cout := (cout w)\<lparr>exceptions := {badbit}\<rparr>\<rparr>"

section \<open>Properties of the stream operations\<close>

lemma raised_and_then:
  "raised (and_then x f) = (case raised x of None \<Rightarrow> raised (f (state_of x)) | Some e \<Rightarrow> Some e)"
  by (cases x) simp_all

lemma state_of_and_then:
  "state_of (and_then x f) =
     (case raised x of None \<Rightarrow> state_of (f (state_of x)) | Some e \<Rightarrow> state_of x)"
  by (cases x) simp_all

lemma good_upd [simp]:
  "good (os\<lparr>pending := p\<rparr>) = good os"
  "good (os\<lparr>delivered := d\<rparr>) = good os"
  by (simp_all add: good_def)

text \<open>The sentry on a stream that is not good: the mask is kept, the stream stays not good,
  and with an empty mask nothing is thrown.\<close>

lemma sentry_not_ok_keeps: "exceptions (state_of (sentry_not_ok os)) = exceptions os"
  by (simp add: sentry_not_ok_def setstate_def Let_def)

lemma sentry_not_ok_default_mask: "exceptions os = {} \<Longrightarrow> raised (sentry_not_ok os) = None"
  by (simp add: sentry_not_ok_def setstate_def Let_def)

lemma sentry_not_ok_bad: "\<not> good os \<Longrightarrow> \<not> good (state_of (sentry_not_ok os))"
  by (simp add: sentry_not_ok_def setstate_def Let_def good_def)

lemma sentry_exit_keeps:
  "exceptions (sentry_exit os) = exceptions os"
  "unitbuf (sentry_exit os) = unitbuf os"
  "device (sentry_exit os) = device os"
  "failure_what (sentry_exit os) = failure_what os"
  by (simp_all add: sentry_exit_def pubsync_def split: sync_result.splits)

lemma sentry_exit_total:
  "good (sentry_exit os) \<Longrightarrow>
   delivered (sentry_exit os) @ pending (sentry_exit os) = delivered os @ pending os"
  by (simp add: sentry_exit_def pubsync_def good_def split: sync_result.splits if_splits)

lemma sentry_exit_good: "good (sentry_exit os) \<Longrightarrow> good os"
  by (simp add: sentry_exit_def split: if_splits)

lemma insert_on_good: "good os \<Longrightarrow> raised (ostream_insert s os) = None"
  by (simp add: ostream_insert_def)

lemma put_on_good: "good os \<Longrightarrow> raised (put c os) = None"
  by (simp add: put_def)

lemma insert_default_mask: "exceptions os = {} \<Longrightarrow> raised (ostream_insert s os) = None"
  by (simp add: ostream_insert_def sentry_not_ok_default_mask)

lemma put_default_mask: "exceptions os = {} \<Longrightarrow> raised (put c os) = None"
  by (simp add: put_def sentry_not_ok_default_mask)

lemma insert_keeps: "exceptions (state_of (ostream_insert s os)) = exceptions os"
  by (simp add: ostream_insert_def sentry_exit_keeps sentry_not_ok_keeps)

lemma put_keeps: "exceptions (state_of (put c os)) = exceptions os"
  by (simp add: put_def sentry_exit_keeps sentry_not_ok_keeps)

lemma insert_good: "good (state_of (ostream_insert s os)) \<Longrightarrow> good os"
  by (cases "good os") (simp_all add: ostream_insert_def sentry_not_ok_bad)

lemma put_good: "good (state_of (put c os)) \<Longrightarrow> good os"
  by (cases "good os") (simp_all add: put_def sentry_not_ok_bad)

lemma insert_total:
  "good os \<Longrightarrow> good (state_of (ostream_insert s os)) \<Longrightarrow>
   delivered (state_of (ostream_insert s os)) @ pending (state_of (ostream_insert s os))
     = delivered os @ pending os @ s"
  by (simp add: ostream_insert_def sentry_exit_total)

lemma put_total:
  "good os \<Longrightarrow> good (state_of (put c os)) \<Longrightarrow>
   delivered (state_of (put c os)) @ pending (state_of (put c os)) = delivered os @ pending os @ [c]"
  by (simp add: put_def sentry_exit_total)

text \<open>With an empty exception mask \<open>flush\<close> cannot throw; when it leaves the stream good,
  the stream was good and the buffer is empty.\<close>

lemma flush_default_mask: "exceptions os = {} \<Longrightarrow> raised (flush os) = None"
  by (simp add: flush_def setstate_def pubsync_def Let_def sentry_not_ok_default_mask
      split: sync_result.splits)

lemma flush_bad: "\<not> good os \<Longrightarrow> \<not> good (state_of (flush os))"
  by (simp add: flush_def sentry_not_ok_bad)

lemma flush_good:
  assumes "good (state_of (flush os))"
  shows "good os \<and> pending (state_of (flush os)) = [] \<and>
         delivered (state_of (flush os)) = delivered os @ pending os"
proof (cases "good os")
  case False
  with assms show ?thesis by (auto dest: flush_bad)
next
  case True
  with assms show ?thesis
    by (auto simp: flush_def setstate_def pubsync_def sentry_exit_def Let_def good_def
        split: sync_result.splits if_splits)
qed

section \<open>Properties of line 13\<close>

lemma on_cout_and_then:
  "and_then (on_cout f w) (on_cout g) = on_cout (\<lambda>os. and_then (f os) g) w"
  by (cases "f (cout w)") (simp_all add: on_cout_def split: step.splits)

lemma endl_on_cout: "endl on_cout = on_cout (\<lambda>os. and_then (put newline os) flush)"
  by (rule ext) (simp add: endl_def on_cout_and_then)

lemma print_hello_on_cout: "print_hello w = on_cout hello_stmt w"
  unfolding print_hello_def endl_on_cout on_cout_and_then hello_stmt_def ..

lemma raised_on_cout: "raised (on_cout f w) = raised (f (cout w))"
  by (cases "f (cout w)") (simp_all add: on_cout_def)

lemma state_of_on_cout: "state_of (on_cout f w) = w\<lparr>cout := state_of (f (cout w))\<rparr>"
  by (cases "f (cout w)") (simp_all add: on_cout_def)

lemma hello_stmt_default_mask: "exceptions os = {} \<Longrightarrow> raised (hello_stmt os) = None"
  by (simp add: hello_stmt_def raised_and_then state_of_and_then insert_default_mask
      put_default_mask flush_default_mask insert_keeps put_keeps)

text \<open>The statement leaves the stream good only if every step found it good and left it
  good; then all that was inserted has been delivered.\<close>

lemma endl_bad: "\<not> good os \<Longrightarrow> \<not> good (state_of (and_then (put newline os) flush))"
proof -
  assume b: "\<not> good os"
  then have "\<not> good (state_of (put newline os))" by (blast dest: put_good)
  then show ?thesis
    by (cases "put newline os") (simp_all add: flush_bad)
qed

lemma hello_stmt_flushed:
  assumes "good (state_of (hello_stmt os))"
  shows "pending (state_of (hello_stmt os)) = [] \<and>
         delivered (state_of (hello_stmt os)) = delivered os @ pending os @ greeting"
proof -
  let ?a = "state_of (ostream_insert ''Hello, World!'' os)"
  let ?b = "state_of (put newline ?a)"
  have ga: "good ?a"
  proof (rule ccontr)
    assume na: "\<not> good ?a"
    then have "\<not> good (state_of (hello_stmt os))"
      by (cases "ostream_insert ''Hello, World!'' os") (simp_all add: hello_stmt_def endl_bad)
    with assms show False by simp
  qed
  then have g: "good os" by (rule insert_good)
  then have r1: "raised (ostream_insert ''Hello, World!'' os) = None" by (rule insert_on_good)
  have r2: "raised (put newline ?a) = None" using ga by (rule put_on_good)
  have s: "state_of (hello_stmt os) = state_of (flush ?b)"
    by (simp add: hello_stmt_def state_of_and_then r1 r2)
  from assms have f: "good ?b \<and> pending (state_of (hello_stmt os)) = [] \<and>
      delivered (state_of (hello_stmt os)) = delivered ?b @ pending ?b"
    unfolding s by (rule flush_good)
  then have gb: "good ?b" by simp
  have "delivered ?b @ pending ?b = delivered ?a @ pending ?a @ [newline]"
    using ga gb by (rule put_total)
  also have "\<dots> = (delivered os @ pending os @ ''Hello, World!'') @ [newline]"
    using insert_total [OF g ga] by simp
  finally show ?thesis using f by (simp add: greeting_def)
qed

text \<open>From a good, block-buffered, empty \<open>cout\<close> the whole statement is one transfer of the
  greeting, and the device decides what happens.\<close>

lemma hello_stmt_start:
  assumes "good os" and "\<not> unitbuf os" and "pending os = []"
  shows "hello_stmt os =
     (case device os (delivered os) greeting of
        Synced \<Rightarrow> Normal (os\<lparr>delivered := delivered os @ greeting, pending := []\<rparr>)
      | Sync_failed \<Rightarrow> setstate {badbit} (os\<lparr>pending := []\<rparr>)
      | Sync_threw e \<Rightarrow>
          (if badbit \<in> exceptions os
           then Thrown e (os\<lparr>pending := greeting, rdstate := {badbit}\<rparr>)
           else Normal (os\<lparr>pending := greeting, rdstate := {badbit}\<rparr>)))"
  using assms
  by (simp add: hello_stmt_def ostream_insert_def put_def flush_def sentry_exit_def pubsync_def
      Let_def good_def greeting_def split: sync_result.splits)

section \<open>Properties of \<open>main\<close>\<close>

lemma print_hello_cerr: "cerr (state_of (print_hello w)) = cerr w"
  by (simp add: print_hello_on_cout state_of_on_cout)

lemma print_hello_cout: "cout (state_of (print_hello w)) = state_of (hello_stmt (cout w))"
  by (simp add: print_hello_on_cout state_of_on_cout)

lemma raised_print_hello: "raised (print_hello w) = raised (hello_stmt (cout w))"
  by (simp add: print_hello_on_cout raised_on_cout)

lemma main_normal:
  "raised (print_hello w) = None \<Longrightarrow> main w = (state_of (print_hello w), Returned 0)"
  by (cases "print_hello w") (simp_all add: main_def)

lemma main_non_std:
  "raised (print_hello w) = Some Non_std_object \<Longrightarrow>
   main w = (state_of (print_hello w), Uncaught Non_std_object)"
  by (cases "print_hello w") (simp_all add: main_def)

text \<open>The exit status is decided by how line 13 ends.\<close>

lemma main_returns_0_iff: "(snd (main w) = Returned 0) = (raised (print_hello w) = None)"
  by (cases "print_hello w")
     (simp_all add: main_def split: thrown.splits step.splits)

lemma main_returns: "snd (main w) = Returned c \<Longrightarrow> c = 0 \<or> c = 1"
  by (cases "print_hello w")
     (auto simp: main_def split: thrown.splits step.splits)

section \<open>Runs from the initial state\<close>

lemma startup_fields:
  "rdstate (cout (startup env)) = {}" "exceptions (cout (startup env)) = {}"
  "unitbuf (cout (startup env)) = False" "pending (cout (startup env)) = []"
  "delivered (cout (startup env)) = []" "device (cout (startup env)) = stdout_device env"
  "failure_what (cout (startup env)) = failure_text env"
  "rdstate (cerr (startup env)) = {}" "exceptions (cerr (startup env)) = {}"
  "unitbuf (cerr (startup env)) = True" "pending (cerr (startup env)) = []"
  "delivered (cerr (startup env)) = []" "device (cerr (startup env)) = stderr_device env"
  "failure_what (cerr (startup env)) = failure_text env"
  by (simp_all add: startup_def)

lemma strict_fields:
  "rdstate (cout (strict w)) = rdstate (cout w)" "exceptions (cout (strict w)) = {badbit}"
  "unitbuf (cout (strict w)) = unitbuf (cout w)" "pending (cout (strict w)) = pending (cout w)"
  "delivered (cout (strict w)) = delivered (cout w)" "device (cout (strict w)) = device (cout w)"
  "failure_what (cout (strict w)) = failure_what (cout w)"
  "cerr (strict w) = cerr w"
  by (simp_all add: strict_def)

text \<open>With the masks the runtime sets up, line 13 never throws: the handler is never
  entered, and every run returns 0.\<close>

lemma startup_never_throws: "raised (print_hello (startup env)) = None"
  by (simp add: raised_print_hello hello_stmt_default_mask startup_fields)

lemma run_returns_0: "snd (run env) = Returned 0"
  by (simp add: run_def main_returns_0_iff startup_never_throws)

lemma run_state: "fst (run env) = state_of (print_hello (startup env))"
  by (simp add: run_def main_normal startup_never_throws)

lemma run_cerr: "cerr (fst (run env)) = cerr (startup env)"
  by (simp add: run_state print_hello_cerr)

lemma run_cout: "cout (fst (run env)) = state_of (hello_stmt (cout (startup env)))"
  by (simp add: run_state print_hello_cout)

lemma hello_stmt_startup:
  "hello_stmt (cout (startup env)) =
     (case stdout_device env [] greeting of
        Synced \<Rightarrow> Normal ((cout (startup env))\<lparr>delivered := greeting, pending := []\<rparr>)
      | Sync_failed \<Rightarrow> Normal ((cout (startup env))\<lparr>pending := [], rdstate := {badbit}\<rparr>)
      | Sync_threw e \<Rightarrow> Normal ((cout (startup env))\<lparr>pending := greeting, rdstate := {badbit}\<rparr>))"
  by (simp add: hello_stmt_start good_def startup_fields setstate_def Let_def
      split: sync_result.splits)

section \<open>The concrete environments\<close>

lemmas concrete_envs = console_def redirected_def closed_stdout_def
  alien_stdout_def broken_pipe_def accepting_def refusing_def throwing_def

text \<open>Line 13 from the initial state, with \<open>badbit\<close> in the exception mask of \<open>cout\<close>.\<close>

lemma hello_stmt_strict_startup:
  "hello_stmt (cout (strict (startup env))) =
     (case stdout_device env [] greeting of
        Synced \<Rightarrow> Normal ((cout (strict (startup env)))\<lparr>delivered := greeting, pending := []\<rparr>)
      | Sync_failed \<Rightarrow>
          Thrown (Std_exception (failure_text env))
                 ((cout (strict (startup env)))\<lparr>pending := [], rdstate := {badbit}\<rparr>)
      | Sync_threw e \<Rightarrow>
          Thrown e ((cout (strict (startup env)))\<lparr>pending := greeting, rdstate := {badbit}\<rparr>))"
  by (simp add: hello_stmt_start good_def startup_fields strict_fields setstate_def Let_def
      split: sync_result.splits)

section \<open>The claims of the specification\<close>

text \<open>
  C1. In every execution in which the write to standard output succeeds (the device takes
  the greeting), standard output receives exactly the bytes \<open>Hello, World!\<close> followed by one
  line terminator and nothing of it stays in the buffer, nothing is written to standard
  error, and \<open>main\<close> returns 0.
\<close>

theorem healthy_run_prints_greeting:
  assumes "stdout_device env [] greeting = Synced"
  shows "snd (run env) = Returned 0 \<and>
         delivered (cout (fst (run env))) = ''Hello, World!'' @ [CHR 0x0A] \<and>
         pending (cout (fst (run env))) = [] \<and>
         delivered (cerr (fst (run env))) = [] \<and>
         pending (cerr (fst (run env))) = []"
  using assms
  by (simp add: run_returns_0 run_cerr run_cout hello_stmt_startup startup_fields
      greeting_def newline_def)

theorem healthy_run_prints_greeting_witness:
  "stdout_device console [] greeting = Synced \<and>
   snd (run console) = Returned 0 \<and>
   delivered (cout (fst (run console))) = ''Hello, World!'' @ [CHR 0x0A] \<and>
   delivered (cerr (fst (run console))) = []"
  using healthy_run_prints_greeting [of console]
  by (simp add: console_def accepting_def)

text \<open>
  C2. The claim: the exit status is 0 when the output write completes without error and 1
  whenever it fails. The code does not keep the second half. With standard output closed
  the device refuses the greeting, the stream gets \<open>badbit\<close>, nothing is delivered, and
  \<open>main\<close> still returns 0: the \<open>try\<close> block and its handler are there to report the failure,
  but the stream never throws under the exception mask it is left with.
\<close>

theorem closed_stdout_returns_0:
  "stdout_device closed_stdout [] greeting = Sync_failed \<and>
   badbit \<in> rdstate (cout (fst (run closed_stdout))) \<and>
   delivered (cout (fst (run closed_stdout))) = [] \<and>
   snd (run closed_stdout) = Returned 0 \<and>
   snd (run closed_stdout) \<noteq> Returned 1"
  by (simp add: run_returns_0 run_cout hello_stmt_startup startup_fields concrete_envs)

text \<open>
  C3. The claim: whenever the write operation raises an error, one diagnostic line
  \<open>An error occurred: ...\<close> is written to standard error and the program returns failure.
  The code does not do so. With standard output closed the write fails, line 13 throws
  nothing, the handler is not entered, \<open>std::cerr\<close> is left exactly as it was at the start,
  and \<open>main\<close> does not return 1.
\<close>

theorem closed_stdout_no_diagnostic:
  "stdout_device closed_stdout [] greeting = Sync_failed \<and>
   raised (print_hello (startup closed_stdout)) = None \<and>
   cerr (fst (run closed_stdout)) = cerr (startup closed_stdout) \<and>
   snd (run closed_stdout) \<noteq> Returned 1"
  by (simp add: startup_never_throws run_returns_0 run_cerr concrete_envs)

text \<open>
  C4. The claim: a run shows either the greeting or a one-line error message, never both
  and never neither. The code shows neither when the write fails: with standard output
  closed, a run delivers nothing to standard output and puts nothing into standard error.
\<close>

theorem closed_stdout_shows_nothing:
  "delivered (cout (fst (run closed_stdout))) = [] \<and>
   delivered (cerr (fst (run closed_stdout))) = [] \<and>
   pending (cerr (fst (run closed_stdout))) = []"
  by (simp add: run_cerr run_cout hello_stmt_startup startup_fields concrete_envs)

text \<open>
  C5. The claim: every error condition raised by the output operation is caught in \<open>main\<close>,
  none escapes, and each is converted into the diagnostic message plus a nonzero exit
  status. In the code nothing escapes, but nothing is converted either: from the initial
  state, whatever the devices do, line 13 throws nothing, so the handler is never entered,
  \<open>std::cerr\<close> is never written to and the exit status is 0; with standard output closed the
  error condition is there (\<open>badbit\<close> is set) and goes unreported.
\<close>

theorem output_error_never_converted:
  "raised (print_hello (startup env)) = None \<and>
   snd (run env) = Returned 0 \<and>
   cerr (fst (run env)) = cerr (startup env) \<and>
   stdout_device closed_stdout [] greeting = Sync_failed \<and>
   badbit \<in> rdstate (cout (fst (run closed_stdout)))"
  by (simp add: startup_never_throws run_returns_0 run_cerr run_cout hello_stmt_startup
      concrete_envs)

text \<open>
  C6. \<open>main\<close> takes no arguments and reads nothing: a run is a function of the initial state
  of the two streams alone. Any two executions in which standard output is healthy, however
  the rest of their environments differ, deliver the same bytes to standard output, nothing
  to standard error, and end with the same exit code.
\<close>

theorem healthy_runs_agree:
  assumes "stdout_device e1 [] greeting = Synced" and "stdout_device e2 [] greeting = Synced"
  shows "delivered (cout (fst (run e1))) = delivered (cout (fst (run e2))) \<and>
         delivered (cerr (fst (run e1))) = [] \<and> delivered (cerr (fst (run e2))) = [] \<and>
         snd (run e1) = snd (run e2)"
  using assms
  by (simp add: run_returns_0 run_cerr run_cout hello_stmt_startup startup_fields)

theorem healthy_runs_agree_witness:
  "stdout_device console [] greeting = Synced \<and> stdout_device redirected [] greeting = Synced \<and>
   console \<noteq> redirected \<and>
   delivered (cout (fst (run console))) = delivered (cout (fst (run redirected))) \<and>
   delivered (cerr (fst (run console))) = [] \<and> delivered (cerr (fst (run redirected))) = [] \<and>
   snd (run console) = snd (run redirected)"
proof -
  have "failure_text console \<noteq> failure_text redirected" by (simp add: concrete_envs)
  then have "console \<noteq> redirected" by auto
  then show ?thesis
    using healthy_runs_agree [of console redirected] by (simp add: concrete_envs)
qed

text \<open>
  C7. On the success path (\<open>main\<close> returns 0 and \<open>cout\<close> reports no error) standard output has
  been flushed before \<open>main\<close> returns: the buffer of \<open>cout\<close> is empty, and the greeting line,
  after whatever was in the stream before, has reached the device.
\<close>

theorem success_path_is_flushed:
  assumes "snd (main w) = Returned 0" and "good (cout (fst (main w)))"
  shows "pending (cout (fst (main w))) = [] \<and>
         delivered (cout (fst (main w))) = delivered (cout w) @ pending (cout w) @ greeting"
proof -
  from assms(1) have "raised (print_hello w) = None" by (simp add: main_returns_0_iff)
  then have "main w = (state_of (print_hello w), Returned 0)" by (rule main_normal)
  then have c: "cout (fst (main w)) = state_of (hello_stmt (cout w))"
    by (simp add: print_hello_cout)
  with assms(2) show ?thesis by (simp add: hello_stmt_flushed)
qed

theorem success_path_is_flushed_witness:
  "snd (main (startup console)) = Returned 0 \<and> good (cout (fst (main (startup console)))) \<and>
   pending (cout (fst (main (startup console)))) = [] \<and>
   delivered (cout (fst (main (startup console)))) = greeting"
proof -
  have "snd (main (startup console)) = Returned 0 \<and> good (cout (fst (main (startup console))))"
    using run_returns_0 [of console] run_cout [of console]
    by (simp add: run_def hello_stmt_startup good_def startup_fields concrete_envs)
  then show ?thesis
    using success_path_is_flushed [of "startup console"] by (simp add: startup_fields)
qed

text \<open>
  C8. Whatever the state of the streams, a value returned by \<open>main\<close> is 0 or 1; and every
  run from the initial state does return such a value.
\<close>

theorem exit_code_is_0_or_1:
  "(snd (main w) = Returned c \<longrightarrow> c = 0 \<or> c = 1) \<and>
   (\<exists>c. snd (run env) = Returned c \<and> (c = 0 \<or> c = 1))"
  using main_returns [of w c] by (simp add: run_returns_0)

theorem exit_code_is_0_or_1_witness:
  "snd (main (startup closed_stdout)) = Returned 0 \<and>
   (\<exists>c. snd (run closed_stdout) = Returned c \<and> (c = 0 \<or> c = 1))"
  using exit_code_is_0_or_1 [of "startup closed_stdout" 0 closed_stdout]
    run_returns_0 [of closed_stdout]
  by (simp add: run_def)

text \<open>
  C9. Whenever the output statement throws no exception, \<open>main\<close> returns 0. With the empty
  exception mask that \<open>std::cout\<close> has by default the statement never throws; so in a run
  from the initial state a write that the device does not accept sets \<open>badbit\<close>, delivers
  nothing, and \<open>main\<close> returns 0 all the same.
\<close>

theorem silent_failure_returns_0:
  "(raised (print_hello w) = None \<longrightarrow> snd (main w) = Returned 0) \<and>
   (exceptions (cout w) = {} \<longrightarrow> raised (print_hello w) = None) \<and>
   (stdout_device env [] greeting \<noteq> Synced \<longrightarrow>
      snd (run env) = Returned 0 \<and> badbit \<in> rdstate (cout (fst (run env))) \<and>
      delivered (cout (fst (run env))) = [])"
  by (auto simp: main_returns_0_iff raised_print_hello hello_stmt_default_mask run_returns_0
      run_cout hello_stmt_startup startup_fields split: sync_result.splits)

theorem silent_failure_returns_0_witness:
  "exceptions (cout (startup broken_pipe)) = {} \<and>
   raised (print_hello (startup broken_pipe)) = None \<and>
   snd (main (startup broken_pipe)) = Returned 0 \<and>
   stdout_device broken_pipe [] greeting \<noteq> Synced \<and>
   badbit \<in> rdstate (cout (fst (run broken_pipe))) \<and>
   delivered (cout (fst (run broken_pipe))) = []"
  using silent_failure_returns_0 [of "startup broken_pipe" broken_pipe]
  by (simp add: startup_fields concrete_envs)

text \<open>
  C10. The handler takes exceptions derived from \<open>std::exception\<close> only. In every execution
  in which the output statement throws an object of another type, the exception leaves
  \<open>main\<close>, \<open>main\<close> does not return 1, and \<open>std::cerr\<close> is left untouched: no diagnostic line.
\<close>

theorem non_std_object_escapes:
  assumes "raised (print_hello w) = Some Non_std_object"
  shows "snd (main w) = Uncaught Non_std_object \<and> snd (main w) \<noteq> Returned 1 \<and>
         cerr (fst (main w)) = cerr w"
  using main_non_std [OF assms] by (simp add: print_hello_cerr)

theorem non_std_object_escapes_witness:
  "raised (print_hello (strict (startup alien_stdout))) = Some Non_std_object \<and>
   snd (main (strict (startup alien_stdout))) \<noteq> Returned 1 \<and>
   delivered (cerr (fst (main (strict (startup alien_stdout))))) = [] \<and>
   pending (cerr (fst (main (strict (startup alien_stdout))))) = []"
  using non_std_object_escapes [of "strict (startup alien_stdout)"]
  by (simp add: raised_print_hello hello_stmt_strict_startup strict_fields startup_fields
      concrete_envs)

end
